theory Spec2Isabelle
  imports Main
begin

section \<open>The JavaScript runtime as far as the handlers use it\<close>

text \<open>
  \<^verbatim>\<open>src/index.js\<close> is an Express application over Mongoose. The handlers call a few
  functions of the language runtime: \<^verbatim>\<open>new Date(..)\<close>, \<^verbatim>\<open>Date.prototype.toDateString\<close>,
  \<^verbatim>\<open>parseInt\<close> and \<^verbatim>\<open>Array.prototype.slice\<close>. They are modelled after ECMAScript.
  Strings are lists of 8-bit characters, so the model covers ASCII/Latin-1 input.
\<close>

subsection \<open>Date values\<close>

text \<open>
  A \<^verbatim>\<open>Date\<close> object holds a time value: milliseconds since 1970-01-01T00:00:00Z, or
  NaN for an invalid date. \<open>None\<close> is the invalid date.
\<close>

type_synonym Date = "int option"

definition msPerDay :: int where
  "msPerDay = 86400000"

definition Day :: "int \<Rightarrow> int" where
  "Day t = t div msPerDay"

definition WeekDay :: "int \<Rightarrow> int" where
  "WeekDay t = (Day t + 4) mod 7"

definition DayFromYear :: "int \<Rightarrow> int" where
  "DayFromYear y =
     365 * (y - 1970) + (y - 1969) div 4 - (y - 1901) div 100 + (y - 1601) div 400"

definition InLeapYear :: "int \<Rightarrow> bool" where
  "InLeapYear y = (y mod 4 = 0 \<and> (y mod 100 \<noteq> 0 \<or> y mod 400 = 0))"

definition DaysInMonth :: "int \<Rightarrow> int \<Rightarrow> int" where
  \<comment> \<open>months are numbered from 1 here, as in the date string\<close>
  "DaysInMonth y m =
     (if m = 2 then (if InLeapYear y then 29 else 28)
      else if m = 4 \<or> m = 6 \<or> m = 9 \<or> m = 11 then 30 else 31)"

definition DayWithinYear :: "int \<Rightarrow> int \<Rightarrow> int" where
  \<comment> \<open>number of days of year \<open>y\<close> before the first of month \<open>m\<close> (1..12)\<close>
  "DayWithinYear y m = sum_list (map (DaysInMonth y) [1..m - 1])"

definition MakeDay :: "int \<Rightarrow> int \<Rightarrow> int \<Rightarrow> int" where
  "MakeDay y m d = DayFromYear y + DayWithinYear y m + (d - 1)"

text \<open>
  The calendar date of a day number (days since the epoch), in the proleptic Gregorian
  calendar: year, month (1..12), day of the month. The computation works on 400-year
  eras that start on March 1st.
\<close>

definition civil :: "int \<Rightarrow> int \<times> int \<times> int" where
  "civil z =
     (let z1 = z + 719468;
          era = z1 div 146097;
          doe = z1 - era * 146097;
          yoe = (doe - doe div 1460 + doe div 36524 - doe div 146096) div 365;
          doy = doe - (365 * yoe + yoe div 4 - yoe div 100);
          mp = (5 * doy + 2) div 153;
          d = doy - (153 * mp + 2) div 5 + 1;
          m = (if mp < 10 then mp + 3 else mp - 9);
          y = yoe + era * 400 + (if m \<le> 2 then 1 else 0)
      in (y, m, d))"

definition YearFromTime :: "int \<Rightarrow> int" where
  "YearFromTime t = fst (civil (Day t))"

definition MonthFromTime :: "int \<Rightarrow> int" where
  \<comment> \<open>1..12 (ECMAScript counts from 0; only the name of the month is used)\<close>
  "MonthFromTime t = fst (snd (civil (Day t)))"

definition DateFromTime :: "int \<Rightarrow> int" where
  "DateFromTime t = snd (snd (civil (Day t)))"

subsection \<open>Decimal digits\<close>

definition digit_char :: "nat \<Rightarrow> char" where
  "digit_char n = ''0123456789'' ! (n mod 10)"

fun decimal :: "nat \<Rightarrow> string" where
  "decimal n = (if n < 10 then [digit_char n] else decimal (n div 10) @ [digit_char n])"

definition zero_padded :: "nat \<Rightarrow> nat \<Rightarrow> string" where
  \<comment> \<open>ToZeroPaddedDecimalString\<close>
  "zero_padded n w = replicate (w - length (decimal n)) (CHR ''0'') @ decimal n"

definition digit_val :: "char \<Rightarrow> int option" where
  "digit_val c =
     (let k = (of_char c :: int) in
      if 48 \<le> k \<and> k \<le> 57 then Some (k - 48)
      else if 97 \<le> k \<and> k \<le> 122 then Some (k - 87)
      else if 65 \<le> k \<and> k \<le> 90 then Some (k - 55)
      else None)"

definition is_digit :: "int \<Rightarrow> char \<Rightarrow> bool" where
  "is_digit radix c = (case digit_val c of None \<Rightarrow> False | Some v \<Rightarrow> v < radix)"

definition digits_value :: "int \<Rightarrow> string \<Rightarrow> int" where
  "digits_value radix z =
     foldl (\<lambda>acc c. acc * radix + (case digit_val c of None \<Rightarrow> 0 | Some v \<Rightarrow> v)) 0 z"

subsection \<open>\<^verbatim>\<open>toDateString\<close>\<close>

definition weekday_name :: "int \<Rightarrow> string" where
  "weekday_name w = [''Sun'', ''Mon'', ''Tue'', ''Wed'', ''Thu'', ''Fri'', ''Sat''] ! nat w"

definition month_name :: "int \<Rightarrow> string" where
  "month_name m =
     [''Jan'', ''Feb'', ''Mar'', ''Apr'', ''May'', ''Jun'',
      ''Jul'', ''Aug'', ''Sep'', ''Oct'', ''Nov'', ''Dec''] ! nat (m - 1)"

definition DateString :: "int \<Rightarrow> string" where
  "DateString t =
     weekday_name (WeekDay t) @ '' '' @ month_name (MonthFromTime t) @ '' '' @
     zero_padded (nat (DateFromTime t)) 2 @ '' '' @
     (if YearFromTime t < 0 then ''-'' else []) @ zero_padded (nat \<bar>YearFromTime t\<bar>) 4"

definition toDateString :: "(int \<Rightarrow> int) \<Rightarrow> Date \<Rightarrow> string" where
  \<comment> \<open>\<open>tza\<close> is the offset of the server's local time zone from UTC at a given time, in ms\<close>
  "toDateString tza d =
     (case d of None \<Rightarrow> ''Invalid Date'' | Some tv \<Rightarrow> DateString (tv + tza tv))"

subsection \<open>\<^verbatim>\<open>new Date(string)\<close>\<close>

text \<open>
  ECMAScript fixes the meaning of the date-only form \<^verbatim>\<open>YYYY-MM-DD\<close>: midnight UTC of a
  calendar day that exists. What any other string denotes is left to the other forms of
  the standard and to the implementation; that part is the parameter \<open>other\<close>.
\<close>

definition parse_date_only :: "string \<Rightarrow> int option" where
  "parse_date_only s =
     (if length s = 10 \<and> s ! 4 = CHR ''-'' \<and> s ! 7 = CHR ''-'' \<and>
         list_all (is_digit 10) (take 4 s @ take 2 (drop 5 s) @ drop 8 s)
      then
        (let y = digits_value 10 (take 4 s);
             m = digits_value 10 (take 2 (drop 5 s));
             d = digits_value 10 (drop 8 s)
         in if 1 \<le> m \<and> m \<le> 12 \<and> 1 \<le> d \<and> d \<le> DaysInMonth y m
            then Some (MakeDay y m d * msPerDay) else None)
      else None)"

definition Date_parse :: "(string \<Rightarrow> Date) \<Rightarrow> string \<Rightarrow> Date" where
  "Date_parse other s = (case parse_date_only s of Some t \<Rightarrow> Some t | None \<Rightarrow> other s)"

subsection \<open>\<^verbatim>\<open>parseInt\<close>\<close>

definition is_white_space :: "char \<Rightarrow> bool" where
  "is_white_space c = ((of_char c :: nat) \<in> {9, 10, 11, 12, 13, 32, 160})"

definition strip_sign :: "string \<Rightarrow> bool \<times> string" where
  "strip_sign s =
     (case s of [] \<Rightarrow> (False, [])
      | c # r \<Rightarrow> if c = CHR ''-'' then (True, r) else if c = CHR ''+'' then (False, r)
                 else (False, s))"

definition strip_prefix :: "string \<Rightarrow> int \<times> string" where
  "strip_prefix s =
     (if take 2 s = ''0x'' \<or> take 2 s = ''0X'' then (16, drop 2 s) else (10, s))"

definition parseInt :: "string \<Rightarrow> int option" where
  \<comment> \<open>\<open>None\<close> is NaN\<close>
  "parseInt s =
     (let (neg, s1) = strip_sign (dropWhile is_white_space s);
          (radix, s2) = strip_prefix s1;
          z = takeWhile (is_digit radix) s2
      in if z = [] then None
         else Some ((if neg then - 1 else 1) * digits_value radix z))"

subsection \<open>\<^verbatim>\<open>Number(string)\<close>\<close>

text \<open>
  Whether a string converts to a number or to NaN is a matter of its form alone: it
  converts when, with white space trimmed from both ends, it is empty, a decimal
  literal (optional sign; \<^verbatim>\<open>Infinity\<close>, or digits with an optional fraction and
  exponent), or an unsigned hexadecimal, octal or binary integer literal.
\<close>

definition trim :: "string \<Rightarrow> string" where
  "trim s = rev (dropWhile is_white_space (rev (dropWhile is_white_space s)))"

definition is_ExponentPart_opt :: "string \<Rightarrow> bool" where
  "is_ExponentPart_opt r =
     (case r of
        [] \<Rightarrow> True
      | c # i \<Rightarrow>
          (c = CHR ''e'' \<or> c = CHR ''E'') \<and>
          (let ds = (case i of
                       [] \<Rightarrow> []
                     | g # j \<Rightarrow> if g = CHR ''+'' \<or> g = CHR ''-'' then j else i)
           in ds \<noteq> [] \<and> list_all (is_digit 10) ds))"

definition is_StrUnsignedDecimalLiteral :: "string \<Rightarrow> bool" where
  "is_StrUnsignedDecimalLiteral s =
     (s = ''Infinity'' \<or>
      (let ip = takeWhile (is_digit 10) s; r = dropWhile (is_digit 10) s in
       case r of
         [] \<Rightarrow> ip \<noteq> []
       | c # r1 \<Rightarrow>
           if c = CHR ''.'' then
             (let fp = takeWhile (is_digit 10) r1; r2 = dropWhile (is_digit 10) r1
              in (ip \<noteq> [] \<or> fp \<noteq> []) \<and> is_ExponentPart_opt r2)
           else ip \<noteq> [] \<and> is_ExponentPart_opt r))"

definition is_StrDecimalLiteral :: "string \<Rightarrow> bool" where
  "is_StrDecimalLiteral s =
     (case s of
        [] \<Rightarrow> False
      | c # r \<Rightarrow> if c = CHR ''+'' \<or> c = CHR ''-'' then is_StrUnsignedDecimalLiteral r
                 else is_StrUnsignedDecimalLiteral s)"

definition is_NonDecimalIntegerLiteral :: "string \<Rightarrow> bool" where
  "is_NonDecimalIntegerLiteral s =
     (let p = take 2 s; ds = drop 2 s in
      ds \<noteq> [] \<and>
      ((p = ''0x'' \<or> p = ''0X'') \<and> list_all (is_digit 16) ds \<or>
       (p = ''0o'' \<or> p = ''0O'') \<and> list_all (is_digit 8) ds \<or>
       (p = ''0b'' \<or> p = ''0B'') \<and> list_all (is_digit 2) ds))"

definition is_StringNumericLiteral :: "string \<Rightarrow> bool" where
  \<comment> \<open>\<^verbatim>\<open>Number(s)\<close> is not NaN\<close>
  "is_StringNumericLiteral s =
     (let t = trim s in t = [] \<or> is_StrDecimalLiteral t \<or> is_NonDecimalIntegerLiteral t)"

section \<open>The document store\<close>

text \<open>
  Mongoose and MongoDB are external to the repository; the model keeps what the handlers
  rely on. A collection is the list of its documents in insertion order, which is also
  the order a query returns them in. An \<^verbatim>\<open>ObjectId\<close> is opaque, so it is a number here
  (the one its 24 hexadecimal digits write); a new document gets an id that no stored
  document has.
\<close>

type_synonym ObjectId = int

text \<open>\<^verbatim>\<open>userSchema\<close>: \<^verbatim>\<open>username: { type: String, required: true }\<close>.\<close>

record user =
  u_id :: ObjectId
  u_username :: string

text \<open>
  \<^verbatim>\<open>exerciseSchema\<close>. \<^verbatim>\<open>description\<close> and \<^verbatim>\<open>duration\<close> may be missing. The number type
  \<open>'n\<close> is left open: the handlers never compute with a duration, and which number a
  numeric string denotes is a parameter. Every exercise the handlers store has a valid
  date, so a stored date is a time value.
\<close>

record 'n exercise =
  e_id :: ObjectId
  e_username :: string
  e_description :: "string option"
  e_duration :: "'n option"
  e_date :: int

record 'n db =
  Users :: "user list"
  Exercises :: "'n exercise list"

datatype storage_call =
  Call_User_find | Call_User_findById | Call_User_save | Call_Exercise_find | Call_Exercise_save

text \<open>
  What a request finds around it: the clock, the time zone of the server, how the
  JavaScript engine reads date strings beyond \<^verbatim>\<open>YYYY-MM-DD\<close>, the number that a numeric
  string denotes, whether the driver in use reads a string of 12 characters as the 12
  bytes of an id (older ones do), and which calls to the store are rejected for reasons
  outside the handler (connection lost, ...).
\<close>

record 'n env =
  now :: int
  LocalTZA :: "int \<Rightarrow> int"
  date_other :: "string \<Rightarrow> Date"
  Number_value :: "string \<Rightarrow> 'n"
  id_of_12 :: "string \<Rightarrow> ObjectId option"
  rejects :: "storage_call \<Rightarrow> bool"

datatype error = ValidationError | CastError | StorageError

definition all_ids :: "'n db \<Rightarrow> ObjectId list" where
  "all_ids db = map u_id (Users db) @ map e_id (Exercises db)"

definition new_ObjectId :: "'n db \<Rightarrow> ObjectId" where
  "new_ObjectId db = fold max (all_ids db) 0 + 1"

text \<open>
  Mongoose casts the values it is given to the types of the schema before it talks to
  the store. A string is an \<^verbatim>\<open>ObjectId\<close> when it consists of 24 hexadecimal digits; any
  other path segment fails to cast. A \<^verbatim>\<open>Number\<close> field takes a missing value and the
  empty string as no value, a numeric string as its number, and fails on any other
  string.
\<close>

definition castObjectId :: "'n env \<Rightarrow> string \<Rightarrow> ObjectId option" where
  "castObjectId env s =
     (if length s = 24 \<and> list_all (is_digit 16) s then Some (digits_value 16 s)
      else if length s = 12 then id_of_12 env s
      else None)"

definition castNumber :: "'n env \<Rightarrow> string option \<Rightarrow> error + 'n option" where
  "castNumber env v =
     (case v of
        None \<Rightarrow> Inr None
      | Some s \<Rightarrow>
          if s = [] then Inr None
          else if is_StringNumericLiteral s then Inr (Some (Number_value env s))
          else Inl CastError)"

definition User_find :: "'n env \<Rightarrow> 'n db \<Rightarrow> error + user list" where
  \<comment> \<open>\<^verbatim>\<open>User.find({})\<close>\<close>
  "User_find env db = (if rejects env Call_User_find then Inl StorageError else Inr (Users db))"

definition User_findById :: "'n env \<Rightarrow> 'n db \<Rightarrow> string \<Rightarrow> error + user option" where
  \<comment> \<open>rejects when the id does not cast; otherwise resolves to the document, or to
      \<^verbatim>\<open>null\<close> (\<open>None\<close>) when there is none\<close>
  "User_findById env db userId =
     (case castObjectId env userId of
        None \<Rightarrow> Inl CastError
      | Some i \<Rightarrow>
          if rejects env Call_User_findById then Inl StorageError
          else Inr (find (\<lambda>u. u_id u = i) (Users db)))"

definition User_save :: "'n env \<Rightarrow> 'n db \<Rightarrow> string option \<Rightarrow> error + (user \<times> 'n db)" where
  \<comment> \<open>\<^verbatim>\<open>new User({ username }).save()\<close>; \<^verbatim>\<open>required\<close> refuses a missing and an empty string\<close>
  "User_save env db username =
     (case username of
        None \<Rightarrow> Inl ValidationError
      | Some name \<Rightarrow>
          if name = [] then Inl ValidationError
          else if rejects env Call_User_save then Inl StorageError
          else (let u = \<lparr>u_id = new_ObjectId db, u_username = name\<rparr>
                in Inr (u, db\<lparr>Users := Users db @ [u]\<rparr>)))"

definition Exercise_save ::
  "'n env \<Rightarrow> 'n db \<Rightarrow> string \<Rightarrow> string option \<Rightarrow> string option \<Rightarrow> Date
     \<Rightarrow> error + ('n exercise \<times> 'n db)"
where
  \<comment> \<open>\<^verbatim>\<open>new Exercise({ username, description, duration, date }).save()\<close>; validation
      fails when the username is empty, when the duration does not cast to a number and
      when the date is invalid\<close>
  "Exercise_save env db username description duration date =
     (if username = [] then Inl ValidationError
      else case castNumber env duration of
        Inl err \<Rightarrow> Inl ValidationError
      | Inr number \<Rightarrow>
         (case date of
            None \<Rightarrow> Inl ValidationError
          | Some t \<Rightarrow>
              if rejects env Call_Exercise_save then Inl StorageError
              else (let e = \<lparr>e_id = new_ObjectId db, e_username = username,
                             e_description = description, e_duration = number, e_date = t\<rparr>
                    in Inr (e, db\<lparr>Exercises := Exercises db @ [e]\<rparr>))))"

text \<open>\<^verbatim>\<open>searchFilter\<close>: \<^verbatim>\<open>{ username: .., date: { $gte: from, $lte: to } }\<close>.\<close>

record searchFilter =
  sf_username :: string
  sf_gte :: Date
  sf_lte :: Date

definition Exercise_find :: "'n env \<Rightarrow> 'n db \<Rightarrow> searchFilter \<Rightarrow> error + 'n exercise list" where
  \<comment> \<open>an invalid date in the filter does not cast, and the query is rejected\<close>
  "Exercise_find env db flt =
     (case sf_gte flt of
        None \<Rightarrow> Inl CastError
      | Some lo \<Rightarrow>
         (case sf_lte flt of
            None \<Rightarrow> Inl CastError
          | Some hi \<Rightarrow>
              if rejects env Call_Exercise_find then Inl StorageError
              else Inr (filter (\<lambda>e. e_username e = sf_username flt \<and>
                                       lo \<le> e_date e \<and> e_date e \<le> hi) (Exercises db))))"

section \<open>Responses\<close>

record 'n exercise_json =
  xj_id :: ObjectId
  xj_username :: string
  xj_description :: "string option"
  xj_duration :: "'n option"
  xj_date :: string

record 'n log_entry =
  le_description :: "string option"
  le_duration :: "'n option"
  le_date :: string

record 'n logData =
  l_id :: ObjectId
  l_username :: string
  count :: nat
  log :: "'n log_entry list"

datatype 'n json =
    Error string
  | User_array "user list"
  | New_user string ObjectId
  | New_exercise "'n exercise_json"
  | Log "'n logData"

record 'n response =
  status :: nat
  body :: "'n json"

definition res_json :: "'n json \<Rightarrow> 'n response" where
  \<comment> \<open>no handler sets a status, so Express sends 200\<close>
  "res_json b = \<lparr>status = 200, body = b\<rparr>"

section \<open>The route handlers\<close>

text \<open>
  Request fields are what an HTML form or a query string sends: a field is absent
  (\<open>None\<close>) or a string. The path parameter \<^verbatim>\<open>:_id\<close> is the string of the path segment.
\<close>

definition js_not :: "'a list \<Rightarrow> bool" where
  \<comment> \<open>\<^verbatim>\<open>!xs\<close> for an array: every object is truthy, the empty array too\<close>
  "js_not xs = False"

definition truthy :: "string option \<Rightarrow> bool" where
  \<comment> \<open>a request field: \<^verbatim>\<open>undefined\<close> and the empty string are falsy\<close>
  "truthy f = (case f of None \<Rightarrow> False | Some s \<Rightarrow> s \<noteq> [])"

definition new_Date :: "'n env \<Rightarrow> string option \<Rightarrow> Date" where
  \<comment> \<open>\<^verbatim>\<open>new Date(s)\<close>, applied to a truthy field only\<close>
  "new_Date env f = (case f of None \<Rightarrow> None | Some s \<Rightarrow> Date_parse (date_other env) s)"

text \<open>
  A handler returns the response it sends, \<open>None\<close> when it sends none (the \<^verbatim>\<open>catch\<close>
  blocks that only log), and the store it leaves behind.
\<close>

definition getUsers :: "'n env \<Rightarrow> 'n db \<Rightarrow> 'n response option \<times> 'n db" where
  "getUsers env db =
     (case User_find env db of
        Inl err \<Rightarrow> (None, db)
      | Inr users \<Rightarrow>
          if js_not users then (Some (res_json (Error ''No users found'')), db)
          else (Some (res_json (User_array users)), db))"

definition createUser :: "'n env \<Rightarrow> string option \<Rightarrow> 'n db \<Rightarrow> 'n response option \<times> 'n db" where
  "createUser env username db =
     (case User_save env db username of
        Inr (user, db') \<Rightarrow> (Some (res_json (New_user (u_username user) (u_id user))), db')
      | Inl err \<Rightarrow> (Some (res_json (Error ''Failed to create user'')), db))"

definition exercise_date :: "'n env \<Rightarrow> string option \<Rightarrow> Date" where
  \<comment> \<open>line 105\<close>
  "exercise_date env d = (if truthy d then new_Date env d else Some (now env))"

definition createExercise ::
  "'n env \<Rightarrow> string \<Rightarrow> string option \<Rightarrow> string option \<Rightarrow> string option \<Rightarrow> 'n db
     \<Rightarrow> 'n response option \<times> 'n db"
where
  "createExercise env userId description duration d db =
     (let date = exercise_date env d in
      case User_findById env db userId of
        Inl err \<Rightarrow> (None, db)
      | Inr None \<Rightarrow> (Some (res_json (Error ''User not found'')), db)
      | Inr (Some user) \<Rightarrow>
         (case Exercise_save env db (u_username user) description duration date of
            Inl err \<Rightarrow> (None, db)
          | Inr (savedExercise, db') \<Rightarrow>
              (Some (res_json (New_exercise
                 \<lparr>xj_id = u_id user,
                  xj_username = u_username user,
                  xj_description = e_description savedExercise,
                  xj_duration = e_duration savedExercise,
                  xj_date = toDateString (LocalTZA env) (Some (e_date savedExercise))\<rparr>)),
               db')))"

definition query_from :: "'n env \<Rightarrow> string option \<Rightarrow> Date" where
  \<comment> \<open>line 154\<close>
  "query_from env f = (if truthy f then new_Date env f else Some 0)"

definition query_to :: "'n env \<Rightarrow> string option \<Rightarrow> Date" where
  \<comment> \<open>line 155\<close>
  "query_to env t = (if truthy t then new_Date env t else Some (now env))"

definition query_limit :: "string option \<Rightarrow> int option" where
  \<comment> \<open>line 156; \<open>None\<close> is NaN\<close>
  "query_limit l = (case l of None \<Rightarrow> Some 0 | Some s \<Rightarrow> if s = [] then Some 0 else parseInt s)"

definition positive :: "int option \<Rightarrow> bool" where
  \<comment> \<open>\<^verbatim>\<open>limit > 0\<close>, false for NaN\<close>
  "positive l = (case l of None \<Rightarrow> False | Some n \<Rightarrow> 0 < n)"

definition slice0 :: "int option \<Rightarrow> 'a list \<Rightarrow> 'a list" where
  \<comment> \<open>\<^verbatim>\<open>xs.slice(0, limit)\<close> for a positive limit\<close>
  "slice0 l xs = (case l of None \<Rightarrow> [] | Some n \<Rightarrow> take (nat n) xs)"

definition log_item :: "'n env \<Rightarrow> 'n exercise \<Rightarrow> 'n log_entry" where
  "log_item env e =
     \<lparr>le_description = e_description e, le_duration = e_duration e,
      le_date = toDateString (LocalTZA env) (Some (e_date e))\<rparr>"

definition getLogs ::
  "'n env \<Rightarrow> string \<Rightarrow> string option \<Rightarrow> string option \<Rightarrow> string option \<Rightarrow> 'n db
     \<Rightarrow> 'n response option \<times> 'n db"
where
  "getLogs env userId f t l db =
     (let from = query_from env f; to = query_to env t; limit = query_limit l in
      case User_findById env db userId of
        Inl err \<Rightarrow> (None, db)
      | Inr None \<Rightarrow> (Some (res_json (Error ''User not found'')), db)
      | Inr (Some user) \<Rightarrow>
         (case Exercise_find env db
                 \<lparr>sf_username = u_username user, sf_gte = from, sf_lte = to\<rparr> of
            Inl err \<Rightarrow> (None, db)
          | Inr exercises \<Rightarrow>
              (let logData = \<lparr>l_id = u_id user, l_username = u_username user,
                              count = length exercises, log = map (log_item env) exercises\<rparr>;
                   logData = (if positive limit then logData\<lparr>log := slice0 limit (log logData)\<rparr>
                              else logData)
               in (Some (res_json (Log logData)), db))))"

text \<open>The routes: method and path select the handler.\<close>

datatype request =
    GET_users
  | POST_users "string option"
  | POST_exercises string "string option" "string option" "string option"
  | GET_logs string "string option" "string option" "string option"

fun route :: "'n env \<Rightarrow> request \<Rightarrow> 'n db \<Rightarrow> 'n response option \<times> 'n db" where
  "route env GET_users db = getUsers env db"
| "route env (POST_users username) db = createUser env username db"
| "route env (POST_exercises userId description duration d) db =
     createExercise env userId description duration d db"
| "route env (GET_logs userId f t l) db = getLogs env userId f t l db"

section \<open>What a response shows of the store\<close>

text \<open>
  The \<^verbatim>\<open>_id\<close> values that occur in a response body. A log entry has the fields
  \<^verbatim>\<open>description\<close>, \<^verbatim>\<open>duration\<close> and \<^verbatim>\<open>date\<close> only, so a log shows one id, the user's.
\<close>

fun exposed_ids :: "'n json \<Rightarrow> ObjectId list" where
  "exposed_ids (Error msg) = []"
| "exposed_ids (User_array users) = map u_id users"
| "exposed_ids (New_user name i) = [i]"
| "exposed_ids (New_exercise x) = [xj_id x]"
| "exposed_ids (Log ld) = [l_id ld]"

text \<open>
  Ids are unique across the collections: no exercise has the id of a user. This holds
  in the empty store, and every request keeps it.
\<close>

definition ids_disjoint :: "'n db \<Rightarrow> bool" where
  "ids_disjoint db = (\<forall>e \<in> set (Exercises db). \<forall>u \<in> set (Users db). e_id e \<noteq> u_id u)"

text \<open>Every stored user has a username, as \<^verbatim>\<open>required\<close> guarantees for users saved here.\<close>

definition usernames_present :: "'n db \<Rightarrow> bool" where
  "usernames_present db = (\<forall>u \<in> set (Users db). u_username u \<noteq> [])"

section \<open>Concrete stores and environments\<close>

text \<open>
  Durations in the examples are whole numbers, so the numbers are the integers and the
  number of a numeric string is read off its integer literal.
\<close>

definition whole_number :: "string \<Rightarrow> int" where
  "whole_number s = (case parseInt s of None \<Rightarrow> 0 | Some n \<Rightarrow> n)"

text \<open>A server on UTC whose store answers every call; the clock reads 2023-11-14.\<close>

definition env_utc :: "int env" where
  "env_utc = \<lparr>now = 1700000000000, LocalTZA = (\<lambda>t. 0), date_other = (\<lambda>s. None),
              Number_value = whole_number, id_of_12 = (\<lambda>s. None),
              rejects = (\<lambda>c. False)\<rparr>"


definition db_empty :: "int db" where
  "db_empty = \<lparr>Users = [], Exercises = []\<rparr>"

definition id1 :: string where
  \<comment> \<open>the path segment of Alice's id\<close>
  "id1 = ''000000000000000000000001''"


definition alice :: user where
  "alice = \<lparr>u_id = 1, u_username = ''alice''\<rparr>"

definition bob :: user where
  "bob = \<lparr>u_id = 2, u_username = ''bob''\<rparr>"

definition workout :: "ObjectId \<Rightarrow> string \<Rightarrow> int \<Rightarrow> int exercise" where
  "workout i name t =
     \<lparr>e_id = i, e_username = name, e_description = Some ''run'', e_duration = Some 30,
      e_date = t\<rparr>"

text \<open>Alice has exercises on the first three days of 2023, Bob one on the second.\<close>

definition db_three :: "int db" where
  "db_three =
     \<lparr>Users = [alice, bob],
      Exercises = [workout 3 ''alice'' 1672531200000, workout 4 ''bob'' 1672617600000,
                   workout 5 ''alice'' 1672617600000, workout 6 ''alice'' 1672704000000]\<rparr>"

text \<open>
  The store after Alice signs up and logs one exercise dated 1969-12-31, the day before
  the epoch.
\<close>

definition db_early :: "int db" where
  "db_early = \<lparr>Users = [alice], Exercises = [workout 2 ''alice'' (- 86400000)]\<rparr>"

section \<open>Auxiliary facts\<close>

lemma fold_max_ge: "a \<le> fold max xs (a::int)"
  by (induction xs arbitrary: a) (auto intro: order_trans [OF max.cobounded2])

lemma fold_max_upper: "x \<in> set xs \<Longrightarrow> x \<le> fold max xs (a::int)"
proof (induction xs arbitrary: a)
  case Nil
  then show ?case by simp
next
  case (Cons y ys)
  show ?case
  proof (cases "x = y")
    case True
    have "y \<le> max y a" by simp
    also have "\<dots> \<le> fold max ys (max y a)" by (rule fold_max_ge)
    finally show ?thesis using True by simp
  next
    case False
    with Cons.prems have "x \<in> set ys" by simp
    then show ?thesis using Cons.IH by simp
  qed
qed

lemma new_ObjectId_fresh: "i \<in> set (all_ids db) \<Longrightarrow> i < new_ObjectId db"
  using fold_max_upper [of i "all_ids db" 0] by (simp add: new_ObjectId_def)

lemma new_ObjectId_not_user: "u \<in> set (Users db) \<Longrightarrow> u_id u \<noteq> new_ObjectId db"
  using new_ObjectId_fresh [of "u_id u" db] by (auto simp: all_ids_def)

lemma new_ObjectId_not_exercise: "e \<in> set (Exercises db) \<Longrightarrow> e_id e \<noteq> new_ObjectId db"
  using new_ObjectId_fresh [of "e_id e" db] by (auto simp: all_ids_def)

lemma findById_Some:
  "User_findById env db userId = Inr (Some u)
     \<Longrightarrow> u \<in> set (Users db) \<and> castObjectId env userId = Some (u_id u)"
  by (auto simp: User_findById_def find_Some_iff split: option.splits if_splits)


lemma usernames_present_route:
  assumes "usernames_present db"
  shows "usernames_present (snd (route env req db))"
proof (cases req)
  case GET_users
  with assms show ?thesis by (simp add: getUsers_def split: sum.splits)
next
  case (POST_users username)
  with assms show ?thesis
    by (auto simp: usernames_present_def createUser_def User_save_def Let_def
          split: option.splits)
next
  case (POST_exercises userId description duration d)
  with assms show ?thesis
    by (auto simp: usernames_present_def createExercise_def Exercise_save_def Let_def
          split: sum.splits option.splits)
next
  case (GET_logs userId f t l)
  with assms show ?thesis
    by (simp add: getLogs_def Let_def split: sum.splits option.splits)
qed

section \<open>The exercise log\<close>



text \<open>
  C3. For a log query on an existing user whose bounds are valid dates, the exercises
  considered are exactly those of the store whose username is the found user's and
  whose date lies in the closed interval from \<open>from\<close> to \<open>to\<close>: each of these is
  included, in the order of the store, and every exercise dated outside is excluded.
\<close>

theorem logs_filter_closed_interval:
  assumes found: "User_findById env db userId = Inr (Some user)"
    and up: "\<not> rejects env Call_Exercise_find"
    and lo: "query_from env f = Some lo"
    and hi: "query_to env t = Some hi"
  shows "\<exists>es ld.
           Exercise_find env db \<lparr>sf_username = u_username user, sf_gte = query_from env f,
                                  sf_lte = query_to env t\<rparr> = Inr es
         \<and> es = [e \<leftarrow> Exercises db. e_username e = u_username user
                                      \<and> lo \<le> e_date e \<and> e_date e \<le> hi]
         \<and> set es = {e \<in> set (Exercises db). e_username e = u_username user
                                      \<and> lo \<le> e_date e \<and> e_date e \<le> hi}
         \<and> (\<forall>e \<in> set (Exercises db). e_date e < lo \<or> hi < e_date e \<longrightarrow> e \<notin> set es)
         \<and> getLogs env userId f t l db = (Some (res_json (Log ld)), db)
         \<and> l_id ld = u_id user \<and> l_username ld = u_username user
         \<and> count ld = length es
         \<and> log ld = (if positive (query_limit l)
                      then slice0 (query_limit l) (map (log_item env) es)
                      else map (log_item env) es)"
proof -
  let ?es = "[e \<leftarrow> Exercises db. e_username e = u_username user
                                      \<and> lo \<le> e_date e \<and> e_date e \<le> hi]"
  have find: "Exercise_find env db \<lparr>sf_username = u_username user,
      sf_gte = query_from env f, sf_lte = query_to env t\<rparr> = Inr ?es"
    using up lo hi by (simp add: Exercise_find_def)
  have outside: "\<forall>e \<in> set (Exercises db). e_date e < lo \<or> hi < e_date e \<longrightarrow> e \<notin> set ?es"
    by auto
  have "set ?es = {e \<in> set (Exercises db). e_username e = u_username user
                                      \<and> lo \<le> e_date e \<and> e_date e \<le> hi}"
    by auto
  with find outside found show ?thesis
    by (cases "positive (query_limit l)") (auto simp: getLogs_def Let_def)
qed

theorem logs_filter_closed_interval_witness:
  "getLogs env_utc id1 (Some ''2023-01-02'') (Some ''2023-01-03'') None db_three =
     (Some (res_json (Log \<lparr>l_id = 1, l_username = ''alice'', count = 2,
        log = [\<lparr>le_description = Some ''run'', le_duration = Some 30,
                le_date = ''Mon Jan 02 2023''\<rparr>,
               \<lparr>le_description = Some ''run'', le_duration = Some 30,
                le_date = ''Tue Jan 03 2023''\<rparr>]\<rparr>)), db_three)
   \<and> getLogs env_utc id1 (Some ''2023-01-01'') (Some ''2023-01-02'') None db_three =
     (Some (res_json (Log \<lparr>l_id = 1, l_username = ''alice'', count = 2,
        log = [\<lparr>le_description = Some ''run'', le_duration = Some 30,
                le_date = ''Sun Jan 01 2023''\<rparr>,
               \<lparr>le_description = Some ''run'', le_duration = Some 30,
                le_date = ''Mon Jan 02 2023''\<rparr>]\<rparr>)), db_three)"
proof -
  have found: "User_findById env_utc db_three id1 = Inr (Some alice)"
    by code_simp
  have up: "\<not> rejects env_utc Call_Exercise_find"
    by (simp add: env_utc_def)
  have lim: "\<not> positive (query_limit None)"
    by (simp add: query_limit_def positive_def)
  have day1: "query_from env_utc (Some ''2023-01-01'') = Some 1672531200000"
    by code_simp
  have day2: "query_from env_utc (Some ''2023-01-02'') = Some 1672617600000"
    "query_to env_utc (Some ''2023-01-02'') = Some 1672617600000"
    by code_simp+
  have day3: "query_to env_utc (Some ''2023-01-03'') = Some 1672704000000"
    by code_simp
  have later: "[e \<leftarrow> Exercises db_three. e_username e = u_username alice
               \<and> 1672617600000 \<le> e_date e \<and> e_date e \<le> 1672704000000]
             = [workout 5 ''alice'' 1672617600000, workout 6 ''alice'' 1672704000000]"
    by code_simp
  have earlier: "[e \<leftarrow> Exercises db_three. e_username e = u_username alice
               \<and> 1672531200000 \<le> e_date e \<and> e_date e \<le> 1672617600000]
             = [workout 3 ''alice'' 1672531200000, workout 5 ''alice'' 1672617600000]"
    by code_simp
  have items: "map (log_item env_utc)
       [workout 5 ''alice'' 1672617600000, workout 6 ''alice'' 1672704000000] =
       [\<lparr>le_description = Some ''run'', le_duration = Some 30, le_date = ''Mon Jan 02 2023''\<rparr>,
        \<lparr>le_description = Some ''run'', le_duration = Some 30, le_date = ''Tue Jan 03 2023''\<rparr>]"
    "map (log_item env_utc)
       [workout 3 ''alice'' 1672531200000, workout 5 ''alice'' 1672617600000] =
       [\<lparr>le_description = Some ''run'', le_duration = Some 30, le_date = ''Sun Jan 01 2023''\<rparr>,
        \<lparr>le_description = Some ''run'', le_duration = Some 30, le_date = ''Mon Jan 02 2023''\<rparr>]"
    by code_simp+
  from logs_filter_closed_interval [OF found up day2(1) day3, of None]
  obtain ld where ld: "getLogs env_utc id1 (Some ''2023-01-02'') (Some ''2023-01-03'') None db_three
        = (Some (res_json (Log ld)), db_three)"
      "count ld = 2" "log ld = map (log_item env_utc)
       [workout 5 ''alice'' 1672617600000, workout 6 ''alice'' 1672704000000]"
      "l_id ld = u_id alice" "l_username ld = u_username alice"
    using lim later by auto
  have "ld = \<lparr>l_id = 1, l_username = ''alice'', count = 2,
        log = [\<lparr>le_description = Some ''run'', le_duration = Some 30,
                le_date = ''Mon Jan 02 2023''\<rparr>,
               \<lparr>le_description = Some ''run'', le_duration = Some 30,
                le_date = ''Tue Jan 03 2023''\<rparr>]\<rparr>"
    using ld(2-5) items(1) by (simp add: alice_def)
  with ld(1) have first: "getLogs env_utc id1 (Some ''2023-01-02'') (Some ''2023-01-03'') None
      db_three =
     (Some (res_json (Log \<lparr>l_id = 1, l_username = ''alice'', count = 2,
        log = [\<lparr>le_description = Some ''run'', le_duration = Some 30,
                le_date = ''Mon Jan 02 2023''\<rparr>,
               \<lparr>le_description = Some ''run'', le_duration = Some 30,
                le_date = ''Tue Jan 03 2023''\<rparr>]\<rparr>)), db_three)"
    by simp
  from logs_filter_closed_interval [OF found up day1 day2(2), of None]
  obtain ld' where ld': "getLogs env_utc id1 (Some ''2023-01-01'') (Some ''2023-01-02'') None
        db_three = (Some (res_json (Log ld')), db_three)"
      "count ld' = 2" "log ld' = map (log_item env_utc)
       [workout 3 ''alice'' 1672531200000, workout 5 ''alice'' 1672617600000]"
      "l_id ld' = u_id alice" "l_username ld' = u_username alice"
    using lim earlier by auto
  have "ld' = \<lparr>l_id = 1, l_username = ''alice'', count = 2,
        log = [\<lparr>le_description = Some ''run'', le_duration = Some 30,
                le_date = ''Sun Jan 01 2023''\<rparr>,
               \<lparr>le_description = Some ''run'', le_duration = Some 30,
                le_date = ''Mon Jan 02 2023''\<rparr>]\<rparr>"
    using ld'(2-5) items(2) by (simp add: alice_def)
  with ld'(1) have second: "getLogs env_utc id1 (Some ''2023-01-01'') (Some ''2023-01-02'') None
      db_three =
     (Some (res_json (Log \<lparr>l_id = 1, l_username = ''alice'', count = 2,
        log = [\<lparr>le_description = Some ''run'', le_duration = Some 30,
                le_date = ''Sun Jan 01 2023''\<rparr>,
               \<lparr>le_description = Some ''run'', le_duration = Some 30,
                le_date = ''Mon Jan 02 2023''\<rparr>]\<rparr>)), db_three)"
    by simp
  from first second show ?thesis ..
qed

text \<open>
  C2 (as the code has it). When \<open>from\<close> is absent the lower bound is the Unix epoch,
  time value 0, and when \<open>to\<close> is absent the upper bound is the current time. So with
  \<open>from\<close> absent the exercises counted are those of the user dated from the epoch up
  to the upper bound: none dated at or after the epoch is excluded by the default lower
  bound, and every one dated before the epoch is.
\<close>

theorem logs_default_bounds:
  assumes found: "User_findById env db userId = Inr (Some user)"
    and up: "\<not> rejects env Call_Exercise_find"
    and hi: "query_to env t = Some hi"
  shows "query_from env None = Some 0 \<and> query_to env None = Some (now env)
         \<and> (\<exists>ld es. getLogs env userId None t l db = (Some (res_json (Log ld)), db)
               \<and> es = [e \<leftarrow> Exercises db. e_username e = u_username user
                                            \<and> 0 \<le> e_date e \<and> e_date e \<le> hi]
               \<and> count ld = length es
               \<and> log ld = (if positive (query_limit l)
                            then slice0 (query_limit l) (map (log_item env) es)
                            else map (log_item env) es)
               \<and> (\<forall>e \<in> set (Exercises db). e_date e < 0 \<longrightarrow> e \<notin> set es)
               \<and> (\<forall>e \<in> set (Exercises db). e_username e = u_username user
                      \<and> 0 \<le> e_date e \<and> e_date e \<le> hi \<longrightarrow> e \<in> set es))"
proof -
  let ?es = "[e \<leftarrow> Exercises db. e_username e = u_username user
                                            \<and> 0 \<le> e_date e \<and> e_date e \<le> hi]"
  have lo: "query_from env None = Some 0"
    by (simp add: query_from_def truthy_def)
  have now: "query_to env None = Some (now env)"
    by (simp add: query_to_def truthy_def)
  have find: "Exercise_find env db \<lparr>sf_username = u_username user,
      sf_gte = query_from env None, sf_lte = query_to env t\<rparr> = Inr ?es"
    using up lo hi by (simp add: Exercise_find_def)
  have out: "\<forall>e \<in> set (Exercises db). e_date e < 0 \<longrightarrow> e \<notin> set ?es"
    by auto
  have inside: "\<forall>e \<in> set (Exercises db). e_username e = u_username user
                      \<and> 0 \<le> e_date e \<and> e_date e \<le> hi \<longrightarrow> e \<in> set ?es"
    by auto
  have "\<exists>ld. getLogs env userId None t l db = (Some (res_json (Log ld)), db)
               \<and> count ld = length ?es
               \<and> log ld = (if positive (query_limit l)
                            then slice0 (query_limit l) (map (log_item env) ?es)
                            else map (log_item env) ?es)"
    using found find
    by (cases "positive (query_limit l)") (auto simp: getLogs_def Let_def)
  with lo now out inside show ?thesis by blast
qed

theorem logs_default_bounds_witness:
  "\<exists>ld. getLogs env_utc id1 None None None db_three = (Some (res_json (Log ld)), db_three)
        \<and> count ld = 3"
proof -
  have found: "User_findById env_utc db_three id1 = Inr (Some alice)"
    by code_simp
  have up: "\<not> rejects env_utc Call_Exercise_find"
    by (simp add: env_utc_def)
  have hi: "query_to env_utc None = Some 1700000000000"
    by code_simp
  have "length [e \<leftarrow> Exercises db_three. e_username e = u_username alice
                   \<and> 0 \<le> e_date e \<and> e_date e \<le> 1700000000000] = 3"
    by code_simp
  with logs_default_bounds [OF found up hi, of None] show ?thesis
    by auto
qed

text \<open>
  The default lower bound is not the earliest date there is: an exercise of 1969-12-31,
  created through the API and dated before the upper bound, is left out of a query that
  gives no \<open>from\<close>.
\<close>

theorem logs_default_from_counterexample:
  "snd (createExercise env_utc id1 (Some ''run'') (Some ''30'') (Some ''1969-12-31'')
          (snd (createUser env_utc (Some ''alice'') db_empty))) = db_early
   \<and> Exercises db_early = [workout 2 ''alice'' (- 86400000)]
   \<and> e_username (workout 2 ''alice'' (- 86400000)) = u_username alice
   \<and> e_date (workout 2 ''alice'' (- 86400000)) \<le> now env_utc
   \<and> getLogs env_utc id1 None None None db_early =
       (Some (res_json (Log \<lparr>l_id = 1, l_username = ''alice'', count = 0, log = []\<rparr>)),
        db_early)"
proof -
  have "snd (createExercise env_utc id1 (Some ''run'') (Some ''30'') (Some ''1969-12-31'')
          (snd (createUser env_utc (Some ''alice'') db_empty))) = db_early"
    by code_simp
  moreover have "Exercises db_early = [workout 2 ''alice'' (- 86400000)]"
    by (simp add: db_early_def)
  moreover have "e_username (workout 2 ''alice'' (- 86400000)) = u_username alice"
    by (simp add: workout_def alice_def)
  moreover have "e_date (workout 2 ''alice'' (- 86400000)) \<le> now env_utc"
    by (simp add: workout_def env_utc_def)
  moreover have "getLogs env_utc id1 None None None db_early =
       (Some (res_json (Log \<lparr>l_id = 1, l_username = ''alice'', count = 0, log = []\<rparr>)),
        db_early)"
    by code_simp
  ultimately show ?thesis by blast
qed

section \<open>Unknown users\<close>




section \<open>Creating an exercise\<close>







section \<open>Creating users\<close>

text \<open>
  C6. A user-creation request always gets a response with status 200. If the insert
  succeeds the body is the username and id of the new record, which is the one record
  added to the store; if the insert fails the body is exactly
  \<open>{error: "Failed to create user"}\<close> and the store is unchanged.
\<close>

theorem createUser_response:
  "(\<forall>user db'. User_save env db username = Inr (user, db') \<longrightarrow>
       createUser env username db =
         (Some \<lparr>status = 200, body = New_user (u_username user) (u_id user)\<rparr>, db')
       \<and> Users db' = Users db @ [user] \<and> Exercises db' = Exercises db
       \<and> username = Some (u_username user))
   \<and> (\<forall>err. User_save env db username = Inl err \<longrightarrow>
       createUser env username db =
         (Some \<lparr>status = 200, body = Error ''Failed to create user''\<rparr>, db))
   \<and> (\<exists>r. fst (createUser env username db) = Some r \<and> status r = 200)"
proof -
  have ok: "createUser env username db =
         (Some \<lparr>status = 200, body = New_user (u_username user) (u_id user)\<rparr>, db')
       \<and> Users db' = Users db @ [user] \<and> Exercises db' = Exercises db
       \<and> username = Some (u_username user)"
    if "User_save env db username = Inr (user, db')" for user db'
    using that
    by (auto simp: createUser_def res_json_def User_save_def Let_def
          split: option.splits if_splits)
  have failed: "createUser env username db =
         (Some \<lparr>status = 200, body = Error ''Failed to create user''\<rparr>, db)"
    if "User_save env db username = Inl err" for err
    using that by (simp add: createUser_def res_json_def)
  have "\<exists>r. fst (createUser env username db) = Some r \<and> status r = 200"
    by (cases "User_save env db username")
       (auto simp: createUser_def res_json_def split: prod.splits)
  with ok failed show ?thesis by blast
qed

theorem createUser_response_witness:
  "createUser env_utc (Some ''alice'') db_empty =
     (Some \<lparr>status = 200, body = New_user ''alice'' 1\<rparr>,
      \<lparr>Users = [alice], Exercises = []\<rparr>)
   \<and> createUser env_utc None db_empty =
     (Some \<lparr>status = 200, body = Error ''Failed to create user''\<rparr>, db_empty)"
proof -
  have saved: "User_save env_utc db_empty (Some ''alice'') =
      Inr (alice, \<lparr>Users = [alice], Exercises = []\<rparr>)"
    by code_simp
  have refused: "User_save env_utc db_empty None = Inl ValidationError"
    by (simp add: User_save_def)
  have "createUser env_utc (Some ''alice'') db_empty =
     (Some \<lparr>status = 200, body = New_user ''alice'' 1\<rparr>, \<lparr>Users = [alice], Exercises = []\<rparr>)"
    using createUser_response [of env_utc db_empty "Some ''alice''"] saved
    by (simp add: alice_def)
  moreover have "createUser env_utc None db_empty =
     (Some \<lparr>status = 200, body = Error ''Failed to create user''\<rparr>, db_empty)"
    using createUser_response [of env_utc db_empty None] refused
    by simp
  ultimately show ?thesis ..
qed

text \<open>
  C7 (as the code has it). There is no uniqueness constraint on usernames: for every
  non-empty username, two creation requests with it whose inserts the store accepts
  both succeed, whatever the store held before; they yield two records with the same
  username and distinct ids, which differ from every id stored before, and the user
  listing returns both.
\<close>

theorem duplicate_usernames:
  assumes name: "name \<noteq> []"
    and up1: "\<not> rejects env1 Call_User_save"
    and up2: "\<not> rejects env2 Call_User_save"
    and first: "createUser env1 (Some name) db = (r1, db1)"
    and second: "createUser env2 (Some name) db1 = (r2, db2)"
  shows "\<exists>i1 i2. r1 = Some (res_json (New_user name i1))
           \<and> r2 = Some (res_json (New_user name i2))
           \<and> i1 \<noteq> i2
           \<and> i1 \<notin> set (all_ids db) \<and> i2 \<notin> set (all_ids db)
           \<and> Users db2 = Users db @ [\<lparr>u_id = i1, u_username = name\<rparr>,
                                      \<lparr>u_id = i2, u_username = name\<rparr>]
           \<and> (\<not> rejects env3 Call_User_find \<longrightarrow>
                getUsers env3 db2 = (Some (res_json (User_array (Users db2))), db2))"
proof -
  let ?u1 = "\<lparr>u_id = new_ObjectId db, u_username = name\<rparr>"
  let ?u2 = "\<lparr>u_id = new_ObjectId db1, u_username = name\<rparr>"
  have r1: "r1 = Some (res_json (New_user name (new_ObjectId db)))"
    and db1: "db1 = db\<lparr>Users := Users db @ [?u1]\<rparr>"
    using first name up1 by (auto simp: createUser_def User_save_def Let_def)
  have r2: "r2 = Some (res_json (New_user name (new_ObjectId db1)))"
    and db2: "db2 = db1\<lparr>Users := Users db1 @ [?u2]\<rparr>"
    using second name up2 by (auto simp: createUser_def User_save_def Let_def)
  have "?u1 \<in> set (Users db1)"
    by (simp add: db1)
  then have distinct: "new_ObjectId db \<noteq> new_ObjectId db1"
    using new_ObjectId_not_user [of ?u1 db1] by simp
  have old1: "new_ObjectId db \<notin> set (all_ids db)"
    using new_ObjectId_fresh [of "new_ObjectId db" db] by auto
  have "set (all_ids db) \<subseteq> set (all_ids db1)"
    by (auto simp: db1 all_ids_def)
  then have old2: "new_ObjectId db1 \<notin> set (all_ids db)"
    using new_ObjectId_fresh [of "new_ObjectId db1" db1] by auto
  have users: "Users db2 = Users db @ [?u1, ?u2]"
    by (simp add: db2 db1)
  have listing: "\<not> rejects env3 Call_User_find \<longrightarrow>
                getUsers env3 db2 = (Some (res_json (User_array (Users db2))), db2)"
    by (simp add: getUsers_def User_find_def js_not_def)
  from r1 r2 distinct old1 old2 users listing show ?thesis by blast
qed

theorem duplicate_usernames_witness:
  "createUser env_utc (Some ''alice'') db_empty =
     (Some (res_json (New_user ''alice'' 1)), \<lparr>Users = [alice], Exercises = []\<rparr>)
   \<and> createUser env_utc (Some ''alice'')
         \<lparr>Users = [alice], Exercises = []::int exercise list\<rparr> =
     (Some (res_json (New_user ''alice'' 2)),
      \<lparr>Users = [alice, \<lparr>u_id = 2, u_username = ''alice''\<rparr>], Exercises = []\<rparr>)
   \<and> getUsers env_utc \<lparr>Users = [alice, \<lparr>u_id = 2, u_username = ''alice''\<rparr>],
                        Exercises = []::int exercise list\<rparr> =
       (Some (res_json (User_array [alice, \<lparr>u_id = 2, u_username = ''alice''\<rparr>])),
        \<lparr>Users = [alice, \<lparr>u_id = 2, u_username = ''alice''\<rparr>], Exercises = []\<rparr>)"
proof -
  let ?db1 = "\<lparr>Users = [alice], Exercises = []::int exercise list\<rparr>"
  let ?db2 = "\<lparr>Users = [alice, \<lparr>u_id = 2, u_username = ''alice''\<rparr>],
               Exercises = []::int exercise list\<rparr>"
  have name: "''alice'' \<noteq> []"
    by simp
  have up: "\<not> rejects env_utc Call_User_save" "\<not> rejects env_utc Call_User_find"
    by (simp_all add: env_utc_def)
  have first: "createUser env_utc (Some ''alice'') db_empty =
      (Some (res_json (New_user ''alice'' 1)), ?db1)"
    by code_simp
  have second: "createUser env_utc (Some ''alice'') ?db1 =
      (Some (res_json (New_user ''alice'' 2)), ?db2)"
    by code_simp
  from duplicate_usernames [OF name up(1) up(1) first second, of env_utc] up(2)
  have "getUsers env_utc ?db2 = (Some (res_json (User_array (Users ?db2))), ?db2)"
    by blast
  then have "getUsers env_utc ?db2 =
      (Some (res_json (User_array [alice, \<lparr>u_id = 2, u_username = ''alice''\<rparr>])), ?db2)"
    by simp
  with first second show ?thesis by blast
qed

text \<open>
  Not every username is accepted: the schema requires the field, an empty string does
  not satisfy \<^verbatim>\<open>required\<close>, and neither of two requests with it creates a record.
\<close>

theorem duplicate_usernames_counterexample:
  "createUser env_utc (Some []) db_empty =
     (Some (res_json (Error ''Failed to create user'')), db_empty)
   \<and> createUser env_utc (Some []) (snd (createUser env_utc (Some []) db_empty)) =
     (Some (res_json (Error ''Failed to create user'')), db_empty)
   \<and> getUsers env_utc db_empty = (Some (res_json (User_array [])), db_empty)"
proof -
  have refused: "createUser env_utc (Some []) db_empty =
     (Some (res_json (Error ''Failed to create user'')), db_empty)"
    by (simp add: createUser_def User_save_def)
  then have "createUser env_utc (Some []) (snd (createUser env_utc (Some []) db_empty)) =
     (Some (res_json (Error ''Failed to create user'')), db_empty)"
    by simp
  moreover have "getUsers env_utc db_empty = (Some (res_json (User_array [])), db_empty)"
    by (simp add: getUsers_def User_find_def js_not_def env_utc_def db_empty_def)
  ultimately show ?thesis using refused by blast
qed

section \<open>The store only grows\<close>

lemma getUsers_store: "snd (getUsers env db) = db"
  by (simp add: getUsers_def split: sum.splits)

lemma getLogs_store: "snd (getLogs env userId f t l db) = db"
  by (simp add: getLogs_def Let_def split: sum.splits option.splits)

lemma createUser_store:
  "snd (createUser env username db) = db
   \<or> (\<exists>u. snd (createUser env username db) = db\<lparr>Users := Users db @ [u]\<rparr>)"
  by (auto simp: createUser_def User_save_def Let_def split: option.splits)

lemma createExercise_store:
  "snd (createExercise env userId description duration d db) = db
   \<or> (\<exists>e. snd (createExercise env userId description duration d db)
            = db\<lparr>Exercises := Exercises db @ [e]\<rparr>)"
  by (auto simp: createExercise_def Exercise_save_def Let_def split: sum.splits option.splits)

text \<open>
  C8. No request updates or deletes a document. Listing users and querying logs leave
  the store as it is; creating a user leaves it as it is or appends one user; creating
  an exercise leaves it as it is or appends one exercise. So every document stored
  before a request is stored, unchanged and at the same place, after it.
\<close>

theorem store_only_appended:
  "(snd (route env req db) = db
      \<or> (\<exists>username u. req = POST_users username
            \<and> snd (route env req db) = db\<lparr>Users := Users db @ [u]\<rparr>)
      \<or> (\<exists>userId description duration d e. req = POST_exercises userId description duration d
            \<and> snd (route env req db) = db\<lparr>Exercises := Exercises db @ [e]\<rparr>))
   \<and> take (length (Users db)) (Users (snd (route env req db))) = Users db
   \<and> take (length (Exercises db)) (Exercises (snd (route env req db))) = Exercises db
   \<and> length (Users (snd (route env req db))) + length (Exercises (snd (route env req db)))
       \<le> Suc (length (Users db) + length (Exercises db))"
proof (cases req)
  case GET_users
  then show ?thesis by (simp add: getUsers_store)
next
  case (POST_users username)
  with createUser_store [of env username db] show ?thesis by auto
next
  case (POST_exercises userId description duration d)
  with createExercise_store [of env userId description duration d db] show ?thesis by auto
next
  case (GET_logs userId f t l)
  then show ?thesis by (simp add: getLogs_store)
qed

theorem store_only_appended_witness:
  "snd (route env_utc (POST_users (Some ''carol'')) db_three)
     = db_three\<lparr>Users := Users db_three @ [\<lparr>u_id = 7, u_username = ''carol''\<rparr>]\<rparr>
   \<and> take (length (Users db_three))
        (Users (snd (route env_utc (POST_users (Some ''carol'')) db_three))) = Users db_three
   \<and> snd (route env_utc (GET_logs id1 None None None) db_three) = db_three"
proof -
  have created: "snd (route env_utc (POST_users (Some ''carol'')) db_three)
     = db_three\<lparr>Users := Users db_three @ [\<lparr>u_id = 7, u_username = ''carol''\<rparr>]\<rparr>"
    by code_simp
  have kept: "take (length (Users db_three))
        (Users (snd (route env_utc (POST_users (Some ''carol'')) db_three))) = Users db_three"
    using store_only_appended [of env_utc "POST_users (Some ''carol'')" db_three] by blast
  have "Users (snd (route env_utc (GET_logs id1 None None None) db_three)) = Users db_three
      \<and> Exercises (snd (route env_utc (GET_logs id1 None None None) db_three))
          = Exercises db_three"
    using store_only_appended [of env_utc "GET_logs id1 None None None" db_three] by auto
  then have "snd (route env_utc (GET_logs id1 None None None) db_three) = db_three"
    by simp
  with created kept show ?thesis by blast
qed

section \<open>Listing users\<close>

text \<open>
  C9. The user listing never sends an error payload: the branch that would send
  \<open>{error: "No users found"}\<close> is dead, because the result of \<open>find\<close> is an array and
  an array, empty or not, is truthy. The handler sends the array of all users, or
  nothing when the store rejects the query; on an empty collection it sends \<open>[]\<close>.
\<close>

theorem getUsers_never_error:
  "(\<forall>msg. fst (getUsers env db) \<noteq> Some (res_json (Error msg)))
   \<and> (fst (getUsers env db) = None
        \<or> fst (getUsers env db) = Some (res_json (User_array (Users db))))
   \<and> (\<not> rejects env Call_User_find \<and> Users db = []
        \<longrightarrow> getUsers env db = (Some \<lparr>status = 200, body = User_array []\<rparr>, db))"
  by (simp add: getUsers_def User_find_def js_not_def res_json_def)

theorem getUsers_never_error_witness:
  "getUsers env_utc db_empty = (Some \<lparr>status = 200, body = User_array []\<rparr>, db_empty)
   \<and> fst (getUsers env_utc db_empty) \<noteq> Some (res_json (Error ''No users found''))"
proof -
  have "\<not> rejects env_utc Call_User_find \<and> Users db_empty = []"
    by (simp add: env_utc_def db_empty_def)
  with getUsers_never_error [of env_utc db_empty] show ?thesis by blast
qed

section \<open>Exercise ids stay inside\<close>

lemma ids_disjoint_empty: "ids_disjoint \<lparr>Users = [], Exercises = []\<rparr>"
  by (simp add: ids_disjoint_def)

lemma ids_disjointD:
  "ids_disjoint db \<Longrightarrow> u \<in> set (Users db) \<Longrightarrow> e \<in> set (Exercises db)
     \<Longrightarrow> u_id u = e_id e \<Longrightarrow> False"
  unfolding ids_disjoint_def by metis

lemma ids_disjoint_add_user:
  "ids_disjoint db \<Longrightarrow>
     ids_disjoint (db\<lparr>Users := Users db @ [\<lparr>u_id = new_ObjectId db, u_username = name\<rparr>]\<rparr>)"
  by (auto simp: ids_disjoint_def dest: new_ObjectId_not_exercise)

lemma ids_disjoint_add_exercise:
  "ids_disjoint db \<Longrightarrow>
     ids_disjoint (db\<lparr>Exercises := Exercises db @
        [\<lparr>e_id = new_ObjectId db, e_username = name, e_description = description,
          e_duration = duration, e_date = t\<rparr>]\<rparr>)"
  by (auto simp: ids_disjoint_def dest: new_ObjectId_not_user)

lemma ids_disjoint_route:
  assumes "ids_disjoint db"
  shows "ids_disjoint (snd (route env req db))"
proof (cases req)
  case GET_users
  with assms show ?thesis by (simp add: getUsers_store)
next
  case (POST_users username)
  with assms ids_disjoint_add_user [OF assms] show ?thesis
    by (auto simp: createUser_def User_save_def Let_def split: option.splits)
next
  case (POST_exercises userId description duration d)
  with assms ids_disjoint_add_exercise [OF assms] show ?thesis
    by (auto simp: createExercise_def Exercise_save_def Let_def
          split: sum.splits option.splits)
next
  case (GET_logs userId f t l)
  with assms show ?thesis by (simp add: getLogs_store)
qed

text \<open>
  C10. In a store whose ids are unique across the collections, every \<^verbatim>\<open>_id\<close> in a
  response of any endpoint is the id of a stored user and of no stored exercise. The
  \<^verbatim>\<open>_id\<close> of a successful exercise-creation response is the id of the owning user, the
  one the request named, and differs from the id of the exercise just created.
\<close>

theorem exercise_id_not_exposed:
  assumes inv: "ids_disjoint db"
    and run: "route env req db = (Some r, db')"
  shows "set (exposed_ids (body r)) \<subseteq> u_id ` set (Users db')
       \<and> set (exposed_ids (body r)) \<inter> e_id ` set (Exercises db') = {}
       \<and> (\<forall>userId description duration d x.
             req = POST_exercises userId description duration d \<and> body r = New_exercise x
             \<longrightarrow> castObjectId env userId = Some (xj_id x)
               \<and> (\<exists>u \<in> set (Users db). u_id u = xj_id x)
               \<and> (\<exists>e. Exercises db' = Exercises db @ [e] \<and> e_id e \<noteq> xj_id x))"
proof (cases req)
  case GET_users
  with run have "body r = User_array (Users db)" "db' = db"
    by (auto simp: getUsers_def User_find_def js_not_def res_json_def split: if_splits)
  with inv GET_users show ?thesis
    by (auto dest: ids_disjointD)
next
  case (POST_users username)
  with run have "body r = Error ''Failed to create user'' \<and> db' = db
      \<or> (\<exists>name. body r = New_user name (new_ObjectId db)
            \<and> db' = db\<lparr>Users := Users db @ [\<lparr>u_id = new_ObjectId db, u_username = name\<rparr>]\<rparr>)"
    by (auto simp: createUser_def User_save_def Let_def res_json_def
          split: option.splits if_splits)
  with POST_users show ?thesis
    by (auto dest: new_ObjectId_not_exercise)
next
  case (POST_exercises userId description duration d)
  show ?thesis
  proof (cases "body r")
    case (New_exercise x)
    with run POST_exercises obtain user n t where
      user: "User_findById env db userId = Inr (Some user)" and x: "xj_id x = u_id user"
      and db': "db' = db\<lparr>Exercises := Exercises db @
          [\<lparr>e_id = new_ObjectId db, e_username = u_username user,
            e_description = description, e_duration = n, e_date = t\<rparr>]\<rparr>"
      by (auto simp: createExercise_def Exercise_save_def Let_def res_json_def
            split: sum.splits option.splits if_splits)
    from user have mem: "user \<in> set (Users db)"
      and uid: "castObjectId env userId = Some (u_id user)"
      using findById_Some by blast+
    have fresh: "new_ObjectId db \<noteq> u_id user"
      using new_ObjectId_not_user [OF mem] by simp
    have old: "\<forall>e \<in> set (Exercises db). e_id e \<noteq> u_id user"
      using inv mem by (metis ids_disjointD)
    from mem uid fresh old show ?thesis
      using New_exercise POST_exercises x db' by auto
  next
    case (Error msg)
    with POST_exercises show ?thesis by simp
  next
    case (User_array users)
    with run POST_exercises show ?thesis
      by (auto simp: createExercise_def Exercise_save_def Let_def res_json_def
            split: sum.splits option.splits if_splits)
  next
    case (New_user name i)
    with run POST_exercises show ?thesis
      by (auto simp: createExercise_def Exercise_save_def Let_def res_json_def
            split: sum.splits option.splits if_splits)
  next
    case (Log ld)
    with run POST_exercises show ?thesis
      by (auto simp: createExercise_def Exercise_save_def Let_def res_json_def
            split: sum.splits option.splits if_splits)
  qed
next
  case (GET_logs userId f t l)
  with run have "db' = db" and
    "body r = Error ''User not found''
      \<or> (\<exists>user ld. User_findById env db userId = Inr (Some user) \<and> body r = Log ld
            \<and> l_id ld = u_id user)"
    by (auto simp: getLogs_def Let_def res_json_def split: sum.splits option.splits if_splits)
  with inv GET_logs show ?thesis
    by (auto dest!: findById_Some dest: ids_disjointD)
qed

theorem exercise_id_not_exposed_witness:
  "fst (route env_utc (POST_exercises id1 (Some ''run'') (Some ''30'') (Some ''2023-01-01'')) db_three)
     = Some (res_json (New_exercise
        \<lparr>xj_id = 1, xj_username = ''alice'', xj_description = Some ''run'',
         xj_duration = Some 30, xj_date = ''Sun Jan 01 2023''\<rparr>))
   \<and> Exercises (snd (route env_utc
        (POST_exercises id1 (Some ''run'') (Some ''30'') (Some ''2023-01-01'')) db_three))
     = Exercises db_three @ [workout 7 ''alice'' 1672531200000]
   \<and> 1 \<notin> e_id ` set (Exercises db_three @ [workout 7 ''alice'' 1672531200000])"
proof -
  let ?req = "POST_exercises id1 (Some ''run'') (Some ''30'') (Some ''2023-01-01'')"
  let ?r = "res_json (New_exercise
        \<lparr>xj_id = 1, xj_username = ''alice'', xj_description = Some ''run'',
         xj_duration = Some (30::int), xj_date = ''Sun Jan 01 2023''\<rparr>)"
  let ?db' = "db_three\<lparr>Exercises := Exercises db_three @ [workout 7 ''alice'' 1672531200000]\<rparr>"
  have inv: "ids_disjoint db_three"
    by code_simp
  have run: "route env_utc ?req db_three = (Some ?r, ?db')"
    by code_simp
  have "set (exposed_ids (body ?r)) \<inter> e_id ` set (Exercises ?db') = {}"
    using exercise_id_not_exposed [OF inv run] by blast
  then have "1 \<notin> e_id ` set (Exercises db_three @ [workout 7 ''alice'' 1672531200000])"
    by (simp add: res_json_def)
  with run show ?thesis by simp
qed

end
